theory Spec2Isabelle
  imports Main "HOL-Library.Sublist"
begin

section \<open>Query keys (src/api/petstore-hooks.ts, petstoreKeys)\<close>

text \<open>
  The status filter of the Petstore API is the TypeScript union
  \<^verbatim>\<open>"available" | "pending" | "sold"\<close>. A query key is an array whose
  elements are strings, numbers (entity ids) or, for \<^verbatim>\<open>petsByStatus\<close>, the
  status array itself, nested as one element. Ids are integer valued (the demo page
  passes \<^verbatim>\<open>Number.parseInt(petId) || 0\<close>), so they are modelled as \<open>int\<close>.
\<close>

datatype pet_status = Available | Pending | Sold

datatype segment = Str string | Num int | Statuses "pet_status list"

type_synonym cache_key = "segment list"

definition petstoreKeys_all :: cache_key where
  "petstoreKeys_all = [Str ''petstore'']"

definition petstoreKeys_pets :: cache_key where
  "petstoreKeys_pets = petstoreKeys_all @ [Str ''pets'']"

definition petstoreKeys_pet :: "int \<Rightarrow> cache_key" where
  "petstoreKeys_pet petId = petstoreKeys_pets @ [Num petId]"

definition petstoreKeys_petsByStatus :: "pet_status list \<Rightarrow> cache_key" where
  "petstoreKeys_petsByStatus status = petstoreKeys_pets @ [Str ''status'', Statuses status]"

definition petstoreKeys_inventory :: cache_key where
  "petstoreKeys_inventory = petstoreKeys_all @ [Str ''inventory'']"

definition petstoreKeys_orders :: cache_key where
  "petstoreKeys_orders = petstoreKeys_all @ [Str ''orders'']"

definition petstoreKeys_order :: "int \<Rightarrow> cache_key" where
  "petstoreKeys_order orderId = petstoreKeys_orders @ [Num orderId]"

lemmas petstoreKeys_defs =
  petstoreKeys_all_def petstoreKeys_pets_def petstoreKeys_pet_def
  petstoreKeys_petsByStatus_def petstoreKeys_inventory_def petstoreKeys_orders_def
  petstoreKeys_order_def

section \<open>JavaScript values and promises\<close>

text \<open>
  A value that may be \<^verbatim>\<open>undefined\<close> or \<^verbatim>\<open>null\<close>, and the nullish
  coalescing operator \<^verbatim>\<open>a ?? b\<close>, which yields \<^verbatim>\<open>b\<close> exactly when
  \<^verbatim>\<open>a\<close> is one of the two. An awaited promise either rejects (the
  \<^verbatim>\<open>await\<close> throws) or is fulfilled with a value.
\<close>

datatype 'a js = Undefined | Null | Val 'a

fun nullish :: "'a js \<Rightarrow> 'a js \<Rightarrow> 'a js" where
  "nullish Undefined b = b"
| "nullish Null b = b"
| "nullish (Val v) b = Val v"

datatype ('e, 'a) promise = Rejected 'e | Fulfilled 'a

section \<open>Auth helpers (src/lib/auth.ts)\<close>

text \<open>
  The module imports the one \<^verbatim>\<open>client\<close> object of the generated API client
  and configures it in place, so the client's configuration is state shared by
  every caller in the process. The environment is the second piece of state:
  whether \<^verbatim>\<open>window\<close> exists, whether \<^verbatim>\<open>require\<close> can load a module
  at run time (only \<^verbatim>\<open>getContext\<close> uses it), the persisted storage, and
  whether touching the storage throws (every helper catches that and does
  nothing).
\<close>

datatype auth_source = StaticToken string | AuthCallback

record client_config =
  baseUrl :: "string option"
  auth :: "auth_source option"
  headers :: "string \<rightharpoonup> string"

text \<open>
  Modelled from the spec: the generated client (\<^verbatim>\<open>api/petstore/client.gen\<close>)
  is not among the sources, so its \<^verbatim>\<open>setConfig\<close> is taken as the spec and the
  comments of \<^verbatim>\<open>auth.ts\<close> describe it: it writes the given fields into the
  shared, process-wide configuration object and leaves the others; a header given
  as \<^verbatim>\<open>null\<close> is removed. One function per shape of call the sources make.
\<close>

definition setConfig_baseUrl :: "string \<Rightarrow> client_config \<Rightarrow> client_config" where
  "setConfig_baseUrl url cfg = cfg\<lparr>baseUrl := Some url\<rparr>"

definition setConfig_auth :: "auth_source \<Rightarrow> client_config \<Rightarrow> client_config" where
  "setConfig_auth a cfg = cfg\<lparr>auth := Some a\<rparr>"

definition setConfig_header :: "string \<Rightarrow> string option \<Rightarrow> client_config \<Rightarrow> client_config" where
  "setConfig_header name v cfg = cfg\<lparr>headers := (headers cfg)(name := v)\<rparr>"

text \<open>
  The client as \<^verbatim>\<open>petstore-hooks.ts\<close> leaves it when the module is loaded:
  only the base URL is set.
\<close>

definition petstore_client :: client_config where
  "petstore_client =
     setConfig_baseUrl ''https://petstore.swagger.io/v2''
       \<lparr>baseUrl = None, auth = None, headers = Map.empty\<rparr>"

definition STORAGE_KEY :: string where
  "STORAGE_KEY = ''petstore_token''"

record environment =
  hasWindow :: bool
  canRequire :: bool
  storageThrows :: bool
  localStorage :: "string \<rightharpoonup> string"

definition getStoredToken :: "environment \<Rightarrow> string option" where
  "getStoredToken env =
     (if \<not> hasWindow env then None
      else if storageThrows env then None
      else localStorage env STORAGE_KEY)"

text \<open>
  \<^verbatim>\<open>attachAuthToClient(token)\<close> makes one \<^verbatim>\<open>setConfig\<close> call on the shared
  client, with the object \<^verbatim>\<open>{ headers: { Authorization: ... } }\<close>. The value
  it passes as \<^verbatim>\<open>Authorization\<close> is \<^verbatim>\<open>null\<close> when \<^verbatim>\<open>!token\<close> (the
  token is \<^verbatim>\<open>undefined\<close> or the empty string); otherwise it is the token
  itself when the token starts with \<^verbatim>\<open>"Bearer "\<close> and
  \<^verbatim>\<open>"Bearer " + token\<close> when not.
\<close>

definition attachAuthToClient_header :: "string option \<Rightarrow> string option" where
  "attachAuthToClient_header token =
     (case token of
        None \<Rightarrow> None
      | Some t \<Rightarrow>
          if t = [] then None
          else
            let header = (if prefix ''Bearer '' t then t else ''Bearer '' @ t)
            in Some header)"

definition attachAuthToClient :: "string option \<Rightarrow> client_config \<Rightarrow> client_config" where
  "attachAuthToClient token cfg =
     setConfig_header ''Authorization'' (attachAuthToClient_header token) cfg"

definition setStoredToken ::
  "string \<Rightarrow> environment \<times> client_config \<Rightarrow> environment \<times> client_config" where
  "setStoredToken token w =
     (case w of (env, cfg) \<Rightarrow>
        if \<not> hasWindow env then (env, cfg)
        else if storageThrows env then (env, cfg)
        else (env\<lparr>localStorage := (localStorage env)(STORAGE_KEY \<mapsto> token)\<rparr>,
              attachAuthToClient (Some token) cfg))"

definition clearStoredToken ::
  "environment \<times> client_config \<Rightarrow> environment \<times> client_config" where
  "clearStoredToken w =
     (case w of (env, cfg) \<Rightarrow>
        if \<not> hasWindow env then (env, cfg)
        else if storageThrows env then (env, cfg)
        else (env\<lparr>localStorage := (localStorage env)(STORAGE_KEY := None)\<rparr>,
              attachAuthToClient None cfg))"

definition authCallback :: "environment \<Rightarrow> string option" where
  "authCallback env = getStoredToken env"

definition initAuthForServer :: "string option \<Rightarrow> client_config \<Rightarrow> client_config" where
  "initAuthForServer token cfg = attachAuthToClient token cfg"

section \<open>Query client set-up (integrations/tanstack-query/root-provider, getContext)\<close>

definition DEFAULT_STALE_TIME :: int where
  "DEFAULT_STALE_TIME = 1000 * 60 * 2"

text \<open>
  \<^verbatim>\<open>getContext\<close> creates the query client with the default stale time. It
  then loads \<^verbatim>\<open>lib/auth\<close> with \<^verbatim>\<open>require\<close> inside a
  \<^verbatim>\<open>try\<close>: when that throws, nothing more happens. Otherwise, in the browser
  only, it registers \<^verbatim>\<open>authCallback\<close> on the shared client and attaches the
  stored token when there is a non-empty one (the further \<^verbatim>\<open>require\<close> calls
  name modules that are loaded by then). Its effect on the shared client
  configuration:
\<close>

definition getContext_client :: "environment \<Rightarrow> client_config \<Rightarrow> client_config" where
  "getContext_client env cfg =
     (if \<not> canRequire env then cfg
      else if hasWindow env then
        let cfg1 = setConfig_auth AuthCallback cfg in
        (case getStoredToken env of
           None \<Rightarrow> cfg1
         | Some token \<Rightarrow> if token = [] then cfg1 else attachAuthToClient (Some token) cfg1)
      else cfg)"

section \<open>Query hooks (src/api/petstore-hooks.ts)\<close>

text \<open>
  The SDK classes \<^verbatim>\<open>Pet\<close> and \<^verbatim>\<open>Store\<close> are generated code outside the
  sources; each query function takes the SDK operation it calls as a parameter.
  An operation's promise either rejects or is fulfilled with a response whose
  \<^verbatim>\<open>data\<close> field may be missing.
\<close>

record 'a response =
  data :: "'a js"

definition useFindPetsByStatus_queryFn ::
  "(pet_status list \<Rightarrow> 'auth \<Rightarrow> ('e, 'pet list response) promise) \<Rightarrow>
   pet_status list \<Rightarrow> 'auth \<Rightarrow> ('e, 'pet list js) promise" where
  "useFindPetsByStatus_queryFn findPetsByStatus status authArg =
     (case findPetsByStatus status authArg of
        Rejected e \<Rightarrow> Rejected e
      | Fulfilled response \<Rightarrow> Fulfilled (nullish (data response) (Val [])))"

definition useGetPetById_queryFn ::
  "(int \<Rightarrow> 'auth \<Rightarrow> ('e, 'pet response) promise) \<Rightarrow>
   int \<Rightarrow> 'auth \<Rightarrow> ('e, 'pet js) promise" where
  "useGetPetById_queryFn getPetById petId authArg =
     (case getPetById petId authArg of
        Rejected e \<Rightarrow> Rejected e
      | Fulfilled response \<Rightarrow> Fulfilled (nullish (data response) Null))"

definition useGetInventory_queryFn ::
  "('auth \<Rightarrow> ('e, (string \<rightharpoonup> int) response) promise) \<Rightarrow>
   'auth \<Rightarrow> ('e, (string \<rightharpoonup> int) js) promise" where
  "useGetInventory_queryFn getInventory authArg =
     (case getInventory authArg of
        Rejected e \<Rightarrow> Rejected e
      | Fulfilled response \<Rightarrow> Fulfilled (nullish (data response) (Val Map.empty)))"

definition useGetOrderById_queryFn ::
  "(int \<Rightarrow> 'auth \<Rightarrow> ('e, 'order response) promise) \<Rightarrow>
   int \<Rightarrow> 'auth \<Rightarrow> ('e, 'order js) promise" where
  "useGetOrderById_queryFn getOrderById orderId authArg =
     (case getOrderById orderId authArg of
        Rejected e \<Rightarrow> Rejected e
      | Fulfilled response \<Rightarrow> Fulfilled (nullish (data response) Null))"

text \<open>
  The \<^verbatim>\<open>options\<close> argument of a hook, reduced to the two properties that decide
  caching. \<open>None\<close> is a property the object does not have (an absent
  \<^verbatim>\<open>options\<close> argument has none); \<open>Some v\<close> is a property with the value
  \<open>v\<close>, which may be \<^verbatim>\<open>undefined\<close>. Each hook builds the object it hands to
  the library by writing its own properties first and spreading
  \<^verbatim>\<open>...options\<close> last, so every property the caller's object has, also one
  whose value is \<^verbatim>\<open>undefined\<close>, replaces the hook's. The built object records
  which library hook receives it: \<^verbatim>\<open>useGetOrderById\<close> calls
  \<^verbatim>\<open>useQuery\<close>, the other three call \<^verbatim>\<open>useSuspenseQuery\<close>. Reading a
  property the built object does not have gives \<^verbatim>\<open>undefined\<close>.
\<close>

record hook_options =
  opt_enabled :: "bool js option"
  opt_staleTime :: "int js option"

definition no_options :: hook_options where
  "no_options = \<lparr>opt_enabled = None, opt_staleTime = None\<rparr>"

datatype library_hook = UseQuery | UseSuspenseQuery

record query =
  hook :: library_hook
  queryKey :: cache_key
  enabled :: "bool js"
  staleTime :: "int js"

definition spread :: "'a js \<Rightarrow> 'a js option \<Rightarrow> 'a js" where
  "spread own given = (case given of None \<Rightarrow> own | Some v \<Rightarrow> v)"

definition useFindPetsByStatus :: "pet_status list \<Rightarrow> hook_options \<Rightarrow> query" where
  "useFindPetsByStatus status options =
     \<lparr>hook = UseSuspenseQuery,
      queryKey = petstoreKeys_petsByStatus status,
      enabled = spread Undefined (opt_enabled options),
      staleTime = spread Undefined (opt_staleTime options)\<rparr>"

definition useGetPetById :: "int \<Rightarrow> hook_options \<Rightarrow> query" where
  "useGetPetById petId options =
     \<lparr>hook = UseSuspenseQuery,
      queryKey = petstoreKeys_pet petId,
      enabled = spread (Val (petId > 0)) (opt_enabled options),
      staleTime = spread Undefined (opt_staleTime options)\<rparr>"

definition useGetInventory :: "hook_options \<Rightarrow> query" where
  "useGetInventory options =
     \<lparr>hook = UseSuspenseQuery,
      queryKey = petstoreKeys_inventory,
      enabled = spread Undefined (opt_enabled options),
      staleTime = spread Undefined (opt_staleTime options)\<rparr>"

definition useGetOrderById :: "int \<Rightarrow> hook_options \<Rightarrow> query" where
  "useGetOrderById orderId options =
     \<lparr>hook = UseQuery,
      queryKey = petstoreKeys_order orderId,
      enabled = spread (Val (orderId > 0)) (opt_enabled options),
      staleTime = spread Undefined (opt_staleTime options)\<rparr>"

section \<open>The queries of the demo page (src/routes/demo/petstore.tsx, PetstoreDemo)\<close>

text \<open>
  The page asks for the pets of the selected status, for the pet whose id the
  input box holds (\<^verbatim>\<open>Number.parseInt(petId) || 0\<close>: an unparsable or zero
  input gives 0) and for the inventory with a stale time of ten seconds.
\<close>

definition PetstoreDemo_pets :: "pet_status \<Rightarrow> query" where
  "PetstoreDemo_pets status = useFindPetsByStatus [status] no_options"

definition PetstoreDemo_pet :: "int option \<Rightarrow> query" where
  "PetstoreDemo_pet parsed =
     useGetPetById (case parsed of None \<Rightarrow> 0 | Some n \<Rightarrow> if n = 0 then 0 else n) no_options"

definition PetstoreDemo_inventory :: query where
  "PetstoreDemo_inventory =
     useGetInventory \<lparr>opt_enabled = None, opt_staleTime = Some (Val 10000)\<rparr>"

section \<open>Cache store and fetch coordinator\<close>

text \<open>
  Modelled from the spec: the cache store and \<^verbatim>\<open>getOrFetch\<close> are the work
  of the query library behind \<^verbatim>\<open>useQuery\<close> and \<^verbatim>\<open>useSuspenseQuery\<close>,
  which is not among the sources; the definitions of this section follow
  sections 3 and 4.4 of the specification. A cache entry is the spec's record;
  the store holds one entry per key; a pending request maps a key to the callers
  waiting for its single fetch. The fetch function runs outside: calling it is recorded in
  \<open>fetchLog\<close>, and its outcome arrives later through \<open>settle\<close>; the
  credential handed to it plays no part in these steps and is left out.
  Timestamps and \<open>staleMs\<close> are integers (milliseconds). Errors never persist
  as cached state (the entry state machine of the specification), so starting a fetch and a success both clear the
  recorded error.
\<close>

datatype status = Idle | Loading | Success | Stale | Error

record 'a cache_entry =
  entry_key :: cache_key
  entry_data :: "'a option"
  entry_status :: status
  fetchedAt :: "int option"
  entry_error :: "string option"

record policy =
  p_enabled :: bool
  staleMs :: int

record 'a coordinator =
  store :: "cache_key \<rightharpoonup> 'a cache_entry"
  pending :: "cache_key \<rightharpoonup> nat list"
  fetchLog :: "cache_key list"
  delivered :: "(nat \<times> (string, 'a) promise) list"

datatype 'a fetch_result = ShortCircuit | CacheHit "'a option" | Coalesced | Fetching

definition empty_coordinator :: "'a coordinator" where
  "empty_coordinator = \<lparr>store = Map.empty, pending = Map.empty, fetchLog = [], delivered = []\<rparr>"

definition idle_entry :: "cache_key \<Rightarrow> 'a cache_entry" where
  "idle_entry k =
     \<lparr>entry_key = k, entry_data = None, entry_status = Idle, fetchedAt = None,
      entry_error = None\<rparr>"

text \<open>
  Step 2 of section 4.4: the entry exists, has status success, and
  \<^verbatim>\<open>now - fetchedAt < policy.staleMs\<close>.
\<close>

definition fresh :: "policy \<Rightarrow> int \<Rightarrow> 'a cache_entry \<Rightarrow> bool" where
  "fresh p now e =
     (entry_status e = Success \<and>
      (case fetchedAt e of None \<Rightarrow> False | Some t0 \<Rightarrow> now - t0 < staleMs p))"

text \<open>
  Steps 3 and 4: join the pending request of the key when there is one; otherwise
  create it, set the entry to loading (creating the entry when the key has none)
  and call the fetch function.
\<close>

definition joinOrStart ::
  "nat \<Rightarrow> cache_key \<Rightarrow> 'a coordinator \<Rightarrow> 'a fetch_result \<times> 'a coordinator" where
  "joinOrStart caller k s =
     (case pending s k of
        Some waiters \<Rightarrow> (Coalesced, s\<lparr>pending := (pending s)(k \<mapsto> waiters @ [caller])\<rparr>)
      | None \<Rightarrow>
          (Fetching,
           s\<lparr>store := (store s)(k \<mapsto>
                 (case store s k of None \<Rightarrow> idle_entry k | Some e \<Rightarrow> e)
                   \<lparr>entry_status := Loading, entry_error := None\<rparr>),
             pending := (pending s)(k \<mapsto> [caller]),
             fetchLog := fetchLog s @ [k]\<rparr>))"

text \<open>
  \<^verbatim>\<open>getOrFetch(key, fetchFn, policy)\<close> at time \<open>now\<close>, for the caller
  \<open>caller\<close>. A policy with \<^verbatim>\<open>enabled=false\<close> short-circuits first.
\<close>

definition getOrFetch ::
  "nat \<Rightarrow> cache_key \<Rightarrow> policy \<Rightarrow> int \<Rightarrow> 'a coordinator \<Rightarrow> 'a fetch_result \<times> 'a coordinator" where
  "getOrFetch caller k p now s =
     (if \<not> p_enabled p then (ShortCircuit, s)
      else
        case store s k of
          None \<Rightarrow> joinOrStart caller k s
        | Some e \<Rightarrow>
            if fresh p now e then (CacheHit (entry_data e), s)
            else joinOrStart caller k s)"

text \<open>
  Steps 5 and 6: the single fetch of a key settles at time \<open>now\<close>. On success
  the entry becomes a success entry with the data and \<open>fetchedAt = now\<close>; on
  failure the status is error and the error is recorded. Either way every waiter
  receives the one outcome and the pending request is removed.
\<close>

definition settle ::
  "cache_key \<Rightarrow> (string, 'a) promise \<Rightarrow> int \<Rightarrow> 'a coordinator \<Rightarrow> 'a coordinator" where
  "settle k outcome now s =
     (case pending s k of
        None \<Rightarrow> s
      | Some waiters \<Rightarrow>
          s\<lparr>store := (store s)(k \<mapsto>
                (case outcome of
                   Fulfilled d \<Rightarrow>
                     \<lparr>entry_key = k, entry_data = Some d, entry_status = Success,
                      fetchedAt = Some now, entry_error = None\<rparr>
                 | Rejected err \<Rightarrow>
                     (case store s k of None \<Rightarrow> idle_entry k | Some e \<Rightarrow> e)
                       \<lparr>entry_status := Error, entry_error := Some err\<rparr>)),
            pending := (pending s)(k := None),
            delivered := delivered s @ map (\<lambda>c. (c, outcome)) waiters\<rparr>)"

text \<open>
  The policy of a query built by a hook. \<^verbatim>\<open>useQuery\<close> treats a query as
  disabled exactly when its \<^verbatim>\<open>enabled\<close> property is \<^verbatim>\<open>false\<close>.
  \<^verbatim>\<open>useSuspenseQuery\<close> has no \<^verbatim>\<open>enabled\<close> option: it suspends until the
  data is there and always fetches, whatever the object says. A query without a
  \<^verbatim>\<open>staleTime\<close> of its own gets the default that \<^verbatim>\<open>getContext\<close> gives the
  query client.
\<close>

definition policy_of :: "query \<Rightarrow> policy" where
  "policy_of q =
     \<lparr>p_enabled = (hook q = UseSuspenseQuery \<or> enabled q \<noteq> Val False),
      staleMs = (case staleTime q of Val t \<Rightarrow> t | _ \<Rightarrow> DEFAULT_STALE_TIME)\<rparr>"

section \<open>Properties of the key factory\<close>

text \<open>
  C1 (as stated, refuted). The claim asks that two \<^verbatim>\<open>petsByStatus\<close> calls whose
  status arrays hold the same values in a different order yield equal keys. The
  factory embeds the array as it is given: the arrays \<^verbatim>\<open>["available","sold"]\<close>
  and \<^verbatim>\<open>["sold","available"]\<close> denote the same filter set and get different keys.
\<close>

theorem petsByStatus_order_counterexample:
  "set [Available, Sold] = set [Sold, Available] \<and>
   petstoreKeys_petsByStatus [Available, Sold] \<noteq> petstoreKeys_petsByStatus [Sold, Available]"
  by (simp add: petstoreKeys_defs insert_commute)

text \<open>
  C1 (amended). Key construction is a pure function of the status array read as an
  ordered sequence: two calls yield element-wise equal keys exactly when their
  status arrays hold the same values in the same order (so different array
  instances with the same contents share a key, and reordered arrays do not).
\<close>

theorem petsByStatus_key_eq_iff:
  "petstoreKeys_petsByStatus s1 = petstoreKeys_petsByStatus s2 \<longleftrightarrow> s1 = s2"
  by (simp add: petstoreKeys_defs)

section \<open>Properties of the auth helpers\<close>

lemma Authorization_attachAuthToClient:
  "headers (attachAuthToClient token cfg) ''Authorization'' = attachAuthToClient_header token"
  by (simp add: attachAuthToClient_def setConfig_header_def)

lemma attachAuthToClient_header_simps:
  "attachAuthToClient_header None = None"
  "attachAuthToClient_header (Some t) =
     (if t = [] then None else if prefix ''Bearer '' t then Some t else Some (''Bearer '' @ t))"
  by (simp_all add: attachAuthToClient_header_def)

text \<open>
  C7. Attaching the resolved token to the client, whatever credential the client
  held before: no \<^verbatim>\<open>Authorization\<close> header when the token is absent;
  \<^verbatim>\<open>"Bearer abc"\<close> for the token \<^verbatim>\<open>"abc"\<close>, and in general
  \<^verbatim>\<open>"Bearer " + token\<close> for a non-empty token without the prefix; a token that
  already starts with \<^verbatim>\<open>"Bearer "\<close> is the header unchanged. Attaching the
  header that an attach produced yields that same header again: the prefix is
  never applied twice.
\<close>

theorem attachAuthToClient_bearer_scheme:
  "headers (attachAuthToClient None cfg) ''Authorization'' = None \<and>
   headers (attachAuthToClient (Some ''abc'') cfg) ''Authorization'' = Some ''Bearer abc'' \<and>
   headers (attachAuthToClient (Some ''Bearer abc'') cfg) ''Authorization''
     = Some ''Bearer abc'' \<and>
   headers (attachAuthToClient (Some (''Bearer '' @ rest)) cfg) ''Authorization''
     = Some (''Bearer '' @ rest) \<and>
   (t \<noteq> [] \<and> \<not> prefix ''Bearer '' t \<longrightarrow>
      headers (attachAuthToClient (Some t) cfg) ''Authorization'' = Some (''Bearer '' @ t)) \<and>
   headers (attachAuthToClient
              (headers (attachAuthToClient (Some t) cfg) ''Authorization'') cfg')
           ''Authorization''
     = headers (attachAuthToClient (Some t) cfg) ''Authorization''"
  by (simp add: Authorization_attachAuthToClient attachAuthToClient_header_simps)

theorem attachAuthToClient_bearer_scheme_witness:
  "''xyz'' \<noteq> [] \<and> \<not> prefix ''Bearer '' ''xyz'' \<and>
   headers (attachAuthToClient (Some ''bob'') petstore_client) ''Authorization''
     = Some ''Bearer bob'' \<and>
   headers (attachAuthToClient None (attachAuthToClient (Some ''bob'') petstore_client))
           ''Authorization'' = None \<and>
   headers (attachAuthToClient (Some ''xyz'') (attachAuthToClient (Some ''bob'') petstore_client))
           ''Authorization'' = Some ''Bearer xyz'' \<and>
   headers (attachAuthToClient (Some ''Bearer xyz'')
              (attachAuthToClient (Some ''bob'') petstore_client))
           ''Authorization'' = Some ''Bearer xyz''"
  using attachAuthToClient_bearer_scheme
    [of "attachAuthToClient (Some ''bob'') petstore_client" "''xyz''" "''xyz''" petstore_client]
    attachAuthToClient_bearer_scheme [of petstore_client "[]" "''bob''" petstore_client]
  by simp

text \<open>
  C6 (as stated, refuted). The claim asks that resolving the token for one call
  leaves shared state unchanged and never alters the credential of another call.
  \<^verbatim>\<open>attachAuthToClient\<close> writes into the shared client: attaching Bob's token
  changes the configuration every caller reads, and attaching Alice's token
  afterwards replaces the credential Bob's calls would carry. In the browser
  \<^verbatim>\<open>getContext\<close> does the same with the stored token.
\<close>

theorem shared_client_counterexample:
  "headers petstore_client ''Authorization'' = None \<and>
   headers (attachAuthToClient (Some ''bob'') petstore_client) ''Authorization''
     = Some ''Bearer bob'' \<and>
   headers (attachAuthToClient (Some ''alice'')
              (attachAuthToClient (Some ''bob'') petstore_client)) ''Authorization''
     = Some ''Bearer alice'' \<and>
   headers (getContext_client
              \<lparr>hasWindow = True, canRequire = True, storageThrows = False,
               localStorage = [STORAGE_KEY \<mapsto> ''carol'']\<rparr>
              (attachAuthToClient (Some ''bob'') petstore_client)) ''Authorization''
     = Some ''Bearer carol''"
  by (simp add: Authorization_attachAuthToClient attachAuthToClient_header_simps
      getContext_client_def getStoredToken_def setConfig_auth_def petstore_client_def
      setConfig_baseUrl_def)

text \<open>
  C6 (amended). The credential is attached by writing it into the one shared
  client configuration: after \<^verbatim>\<open>attachAuthToClient(t)\<close> the shared
  \<^verbatim>\<open>Authorization\<close> header is decided by \<open>t\<close> alone, whatever an earlier attach
  or the configuration held (the latest attach wins for every call reading the
  shared configuration); the base URL, the auth callback and every other header
  are left as they were.
\<close>

theorem attachAuthToClient_overwrites_shared:
  "headers (attachAuthToClient t2 (attachAuthToClient t1 cfg)) ''Authorization''
     = headers (attachAuthToClient t2 cfg') ''Authorization'' \<and>
   baseUrl (attachAuthToClient t2 cfg) = baseUrl cfg \<and>
   auth (attachAuthToClient t2 cfg) = auth cfg \<and>
   (headers (attachAuthToClient t2 cfg))(''Authorization'' := None)
     = (headers cfg)(''Authorization'' := None)"
  by (simp add: Authorization_attachAuthToClient)
    (simp add: attachAuthToClient_def setConfig_header_def)

section \<open>Properties of the query functions\<close>

text \<open>
  C10. A query function that resolves never resolves with \<^verbatim>\<open>undefined\<close>:
  whatever the SDK operation answers, a missing (\<^verbatim>\<open>undefined\<close> or \<^verbatim>\<open>null\<close>)
  \<^verbatim>\<open>data\<close> field becomes the empty array for \<^verbatim>\<open>useFindPetsByStatus\<close>,
  \<^verbatim>\<open>null\<close> for \<^verbatim>\<open>useGetPetById\<close> and \<^verbatim>\<open>useGetOrderById\<close>, and the empty
  object for \<^verbatim>\<open>useGetInventory\<close>.
\<close>

theorem queryFn_never_undefined:
  "useFindPetsByStatus_queryFn findPetsByStatus st a1 \<noteq> Fulfilled Undefined \<and>
   useGetPetById_queryFn getPetById petId a2 \<noteq> Fulfilled Undefined \<and>
   useGetInventory_queryFn getInventory a3 \<noteq> Fulfilled Undefined \<and>
   useGetOrderById_queryFn getOrderById orderId a4 \<noteq> Fulfilled Undefined \<and>
   (findPetsByStatus st a1 = Fulfilled r1 \<and> (data r1 = Undefined \<or> data r1 = Null) \<longrightarrow>
      useFindPetsByStatus_queryFn findPetsByStatus st a1 = Fulfilled (Val [])) \<and>
   (getPetById petId a2 = Fulfilled r2 \<and> (data r2 = Undefined \<or> data r2 = Null) \<longrightarrow>
      useGetPetById_queryFn getPetById petId a2 = Fulfilled Null) \<and>
   (getInventory a3 = Fulfilled r3 \<and> (data r3 = Undefined \<or> data r3 = Null) \<longrightarrow>
      useGetInventory_queryFn getInventory a3 = Fulfilled (Val Map.empty)) \<and>
   (getOrderById orderId a4 = Fulfilled r4 \<and> (data r4 = Undefined \<or> data r4 = Null) \<longrightarrow>
      useGetOrderById_queryFn getOrderById orderId a4 = Fulfilled Null)"
proof -
  have nn: "nullish x (Val v) \<noteq> Undefined" "nullish x Null \<noteq> Undefined" for x :: "'x js" and v
    by (cases x; simp)+
  show ?thesis
    by (auto simp: useFindPetsByStatus_queryFn_def useGetPetById_queryFn_def
        useGetInventory_queryFn_def useGetOrderById_queryFn_def nn split: promise.split)
qed

theorem queryFn_never_undefined_witness:
  "useFindPetsByStatus_queryFn
     (\<lambda>st a. Fulfilled \<lparr>data = Undefined\<rparr> :: (string, nat list response) promise)
     [Available] (None :: string option) = Fulfilled (Val []) \<and>
   useGetPetById_queryFn
     (\<lambda>i a. Fulfilled \<lparr>data = Undefined\<rparr> :: (string, nat response) promise)
     7 (None :: string option) = Fulfilled Null \<and>
   useGetInventory_queryFn
     (\<lambda>a. Fulfilled \<lparr>data = Null\<rparr> :: (string, (string \<rightharpoonup> int) response) promise)
     (None :: string option) = Fulfilled (Val Map.empty) \<and>
   useGetOrderById_queryFn
     (\<lambda>i a. Fulfilled \<lparr>data = Undefined\<rparr> :: (string, nat response) promise)
     3 (None :: string option) = Fulfilled Null"
  using queryFn_never_undefined
    [of "\<lambda>st a. Fulfilled \<lparr>data = Undefined\<rparr> :: (string, nat list response) promise"
        "[Available]" "None :: string option"
        "\<lambda>i a. Fulfilled \<lparr>data = Undefined\<rparr> :: (string, nat response) promise"
        7 "None :: string option"
        "\<lambda>a. Fulfilled \<lparr>data = Null\<rparr> :: (string, (string \<rightharpoonup> int) response) promise"
        "None :: string option"
        "\<lambda>i a. Fulfilled \<lparr>data = Undefined\<rparr> :: (string, nat response) promise"
        3 "None :: string option"
        "\<lparr>data = Undefined\<rparr>" "\<lparr>data = Undefined\<rparr>" "\<lparr>data = Null\<rparr>" "\<lparr>data = Undefined\<rparr>"]
  by simp

section \<open>Properties of the fetch coordinator\<close>

text \<open>
  C9 (defect of the code). The claim asks that a query with
  \<^verbatim>\<open>enabled=false\<close>, in particular \<^verbatim>\<open>useGetPetById\<close> with
  \<^verbatim>\<open>petId <= 0\<close>, does not call the fetch function and touches neither store
  nor network. The demo page with an empty id box calls
  \<^verbatim>\<open>useGetPetById(0)\<close>: the hook writes \<^verbatim>\<open>enabled: false\<close> into the object
  it builds, but hands the object to \<^verbatim>\<open>useSuspenseQuery\<close>, which does not
  look at \<^verbatim>\<open>enabled\<close>, so the coordinator calls the fetch function for pet 0
  and creates its entry. \<^verbatim>\<open>useGetOrderById(0)\<close>, which calls
  \<^verbatim>\<open>useQuery\<close>, does short-circuit and leaves the coordinator as it was.
\<close>

theorem useGetPetById_disabled_still_fetches:
  "enabled (PetstoreDemo_pet None) = Val False \<and>
   hook (PetstoreDemo_pet None) = UseSuspenseQuery \<and>
   queryKey (PetstoreDemo_pet None) = petstoreKeys_pet 0 \<and>
   fst (getOrFetch 1 (queryKey (PetstoreDemo_pet None)) (policy_of (PetstoreDemo_pet None))
          0 (empty_coordinator :: string coordinator)) = Fetching \<and>
   fetchLog (snd (getOrFetch 1 (queryKey (PetstoreDemo_pet None))
                    (policy_of (PetstoreDemo_pet None))
                    0 (empty_coordinator :: string coordinator))) = [petstoreKeys_pet 0] \<and>
   map_option entry_status
     (store (snd (getOrFetch 1 (queryKey (PetstoreDemo_pet None))
                    (policy_of (PetstoreDemo_pet None))
                    0 (empty_coordinator :: string coordinator))) (petstoreKeys_pet 0))
     = Some Loading \<and>
   enabled (useGetOrderById 0 no_options) = Val False \<and>
   getOrFetch 1 (queryKey (useGetOrderById 0 no_options))
     (policy_of (useGetOrderById 0 no_options)) 0 (empty_coordinator :: string coordinator)
     = (ShortCircuit, empty_coordinator)"
  by (simp add: PetstoreDemo_pet_def useGetPetById_def useGetOrderById_def no_options_def
      spread_def policy_of_def getOrFetch_def joinOrStart_def empty_coordinator_def
      idle_entry_def)

end
